theory Spec2Isabelle
  imports Complex_Main
begin

section \<open>JavaScript values used by App.jsx\<close>

text \<open>
  A JavaScript string is a sequence of UTF-16 code units. Isabelle's \<open>char\<close> has eight
  bits, so strings are modelled as lists of code units; \<open>ascii\<close> embeds a literal whose
  characters are all ASCII. The one non-ASCII character of the literals modelled here is
  the en dash U+2013 (code unit 8211) of the probability ranges.
\<close>

type_synonym js_string = "nat list"

definition ascii :: "string \<Rightarrow> js_string" where
  "ascii cs = map of_char cs"

definition en_dash :: js_string where
  "en_dash = [8211]"

text \<open>
  A score reaching \<open>getRiskRating\<close> and \<open>scoreToOdds\<close> is a field of a parsed JSON
  record: \<open>null\<close>, missing (\<open>undefined\<close>) or a number. JSON numbers are finite, and
  a finite double compares with the integer bounds of the tables as the real number it
  denotes.
\<close>

datatype score = Null | Undefined | Num real


section \<open>RatingClassifier: \<open>RISK_RATINGS\<close> and \<open>getRiskRating\<close>\<close>

text \<open>
  The objects of \<open>RISK_RATINGS\<close> carry \<open>label\<close>, \<open>max\<close>, \<open>color\<close> and \<open>bg\<close>; the object
  returned for a missing score has no \<open>max\<close> property, hence the option.
\<close>

record rating =
  label :: js_string
  max_r :: "real option"
  color :: js_string
  bg :: js_string

definition RISK_RATINGS :: "rating list" where
  "RISK_RATINGS =
    [ \<lparr>label = ascii ''Very Low'', max_r = Some 15,
        color = ascii ''#4a8c6a'', bg = ascii ''#eef6f1''\<rparr>,
      \<lparr>label = ascii ''Relatively Low'', max_r = Some 30,
        color = ascii ''#6aab7b'', bg = ascii ''#f0f7f2''\<rparr>,
      \<lparr>label = ascii ''Relatively Moderate'', max_r = Some 50,
        color = ascii ''#c4a24d'', bg = ascii ''#faf6ec''\<rparr>,
      \<lparr>label = ascii ''Relatively High'', max_r = Some 70,
        color = ascii ''#c48a4d'', bg = ascii ''#f9f3ec''\<rparr>,
      \<lparr>label = ascii ''Very High'', max_r = Some 100,
        color = ascii ''#b85c4a'', bg = ascii ''#f7efed''\<rparr> ]"

definition NO_DATA :: rating where
  "NO_DATA = \<lparr>label = ascii ''No Data'', max_r = None,
               color = ascii ''#95a5a6'', bg = ascii ''#f0f0f0''\<rparr>"

text \<open>
  The loop \<open>for (const r of RISK_RATINGS) if (score <= r.max) return r\<close>: the first
  entry whose bound admits the score, or nothing when the loop runs to its end.
  A comparison with a missing \<open>max\<close> is false in JavaScript.
\<close>

fun scan_ratings :: "real \<Rightarrow> rating list \<Rightarrow> rating option" where
  "scan_ratings s [] = None"
| "scan_ratings s (r # rs) =
     (case max_r r of
        Some m \<Rightarrow> if s \<le> m then Some r else scan_ratings s rs
      | None \<Rightarrow> scan_ratings s rs)"

fun getRiskRating :: "score \<Rightarrow> rating" where
  "getRiskRating Null = NO_DATA"
| "getRiskRating Undefined = NO_DATA"
| "getRiskRating (Num s) =
     (if s < 0 then NO_DATA
      else case scan_ratings s RISK_RATINGS of
             Some r \<Rightarrow> r
           | None \<Rightarrow> RISK_RATINGS ! (length RISK_RATINGS - 1))"


section \<open>ProbabilityEstimator: \<open>scoreToOdds\<close>\<close>

text \<open>
  The returned object has \<open>text\<close>, \<open>detail\<close> and, except for a missing score, \<open>odds\<close>.
  The decimal literals of \<open>odds\<close> are kept as the rationals they are written as.
\<close>

record odds_descriptor =
  text_r :: js_string
  detail :: js_string
  odds :: "real option"

fun scoreToOdds :: "score \<Rightarrow> js_string \<Rightarrow> odds_descriptor" where
  "scoreToOdds Null hazardKey =
     \<lparr>text_r = ascii ''Insufficient data'', detail = [], odds = None\<rparr>"
| "scoreToOdds Undefined hazardKey =
     \<lparr>text_r = ascii ''Insufficient data'', detail = [], odds = None\<rparr>"
| "scoreToOdds (Num s) hazardKey =
     (if s < 0 then
        \<lparr>text_r = ascii ''Insufficient data'', detail = [], odds = None\<rparr>
      else if s \<le> 5 then
        \<lparr>text_r = ascii ''< 0.1%'',
         detail = ascii ''Less than 1 in 1,000 chance per year'', odds = Some 0.001\<rparr>
      else if s \<le> 15 then
        \<lparr>text_r = ascii ''~0.1'' @ en_dash @ ascii ''0.5%'',
         detail = ascii ''Roughly 1 in 200 to 1 in 1,000 per year'', odds = Some 0.003\<rparr>
      else if s \<le> 30 then
        \<lparr>text_r = ascii ''~0.5'' @ en_dash @ ascii ''2%'',
         detail = ascii ''Roughly 1 in 50 to 1 in 200 per year'', odds = Some 0.01\<rparr>
      else if s \<le> 50 then
        \<lparr>text_r = ascii ''~2'' @ en_dash @ ascii ''5%'',
         detail = ascii ''Roughly 1 in 20 to 1 in 50 per year'', odds = Some 0.035\<rparr>
      else if s \<le> 70 then
        \<lparr>text_r = ascii ''~5'' @ en_dash @ ascii ''15%'',
         detail = ascii ''Roughly 1 in 7 to 1 in 20 per year'', odds = Some 0.1\<rparr>
      else if s \<le> 85 then
        \<lparr>text_r = ascii ''~15'' @ en_dash @ ascii ''30%'',
         detail = ascii ''Roughly 1 in 3 to 1 in 7 per year'', odds = Some 0.225\<rparr>
      else
        \<lparr>text_r = ascii ''> 30%'',
         detail = ascii ''Greater than 1 in 3 chance per year'', odds = Some 0.4\<rparr>)"

text \<open>The test \<open>score === null || score === undefined || score < 0\<close> of both functions.\<close>

fun absent_or_negative :: "score \<Rightarrow> bool" where
  "absent_or_negative Null = True"
| "absent_or_negative Undefined = True"
| "absent_or_negative (Num s) = (s < 0)"


section \<open>Errors and the network\<close>

text \<open>
  A thrown value is an error object with a class and a \<open>message\<close>. \<open>new Error(m)\<close> has
  class \<open>Error\<close>; the other classes are raised by the runtime (a rejected \<open>fetch\<close>,
  a body that is not JSON), with a message that the runtime chooses.
\<close>

datatype error_class = Error | TypeError | SyntaxError | DOMException

datatype js_error = JsError error_class (message: js_string)

text \<open>
  Reading a property of \<open>null\<close> or \<open>undefined\<close> throws a \<open>TypeError\<close>. Its message is
  the runtime's; the wording here is V8's, as in
  \<open>Cannot read properties of null (reading 'STATE')\<close>.
\<close>

datatype nullish = Is_undefined | Is_null

definition cannot_read :: "nullish \<Rightarrow> string \<Rightarrow> js_error" where
  "cannot_read v name =
     JsError TypeError
       (ascii ''Cannot read properties of ''
          @ (case v of Is_undefined \<Rightarrow> ascii ''undefined'' | Is_null \<Rightarrow> ascii ''null'')
          @ ascii '' (reading '' @ [39] @ ascii name @ [39] @ ascii '')'')"

text \<open>
  What \<open>await fetch(url)\<close> followed by \<open>await response.json()\<close> can give: the request
  is rejected, or a response arrives with a status, whose body is parsed on demand and
  either fails to parse (\<open>Inl\<close>) or yields the data (\<open>Inr\<close>). \<open>response.ok\<close> is the
  Fetch standard's test on the status.
\<close>

datatype 'd fetch_result = Rejected js_error | Response nat "js_error + 'd"

definition ok :: "nat \<Rightarrow> bool" where
  "ok status = (200 \<le> status \<and> status \<le> 299)"

text \<open>
  The trace of what a run did, in order: the two asynchronous functions being invoked, and
  the HTTP requests they issue.
\<close>

datatype event =
    Call_zipToCountyFips js_string
  | Call_fetchNRIData js_string
  | Http_GET js_string

definition fetch :: "(js_string \<Rightarrow> 'd fetch_result) \<Rightarrow> js_string \<Rightarrow> event list
    \<Rightarrow> 'd fetch_result \<times> event list" where
  "fetch net url tr = (net url, tr @ [Http_GET url])"

text \<open>The decimal digits of a number, as a template literal prints an HTTP status.\<close>

function decimal :: "nat \<Rightarrow> js_string" where
  "decimal n = (if n < 10 then [48 + n] else decimal (n div 10) @ [48 + n mod 10])"
  by pat_completeness auto
termination
  by (relation "measure id") auto

declare decimal.simps [simp del]

fun join :: "js_string \<Rightarrow> js_string list \<Rightarrow> js_string" where
  "join sep [] = []"
| "join sep [a] = a"
| "join sep (a # b # bs) = a @ sep @ join sep (b # bs)"


section \<open>RiskDataFetcher: \<open>fetchNRIData\<close>\<close>

definition NRI_BASE :: js_string where
  "NRI_BASE = ascii ''https://www.fema.gov/api/open/v1/NriCountyData''"

definition fields :: js_string where
  "fields = join (ascii '','') (map ascii
    [ ''county'', ''state'',
      ''ERQK_RISKS'', ''ERQK_RISKR'', ''ERQK_EALS'', ''ERQK_EALR'', ''ERQK_EXPA'', ''ERQK_APTS'',
      ''HRCN_RISKS'', ''HRCN_RISKR'', ''HRCN_EALS'', ''HRCN_EALR'', ''HRCN_EXPA'', ''HRCN_APTS'',
      ''TRND_RISKS'', ''TRND_RISKR'', ''TRND_EALS'', ''TRND_EALR'', ''TRND_EXPA'', ''TRND_APTS'',
      ''RFLD_RISKS'', ''RFLD_RISKR'', ''RFLD_EALS'', ''RFLD_EALR'', ''RFLD_EXPA'', ''RFLD_APTS'',
      ''WFIR_RISKS'', ''WFIR_RISKR'', ''WFIR_EALS'', ''WFIR_EALR'', ''WFIR_EXPA'', ''WFIR_APTS'',
      ''RISK_SCORE'', ''RISK_RATNG'',
      ''EAL_SCORE'', ''EAL_RATNG'',
      ''SOVI_SCORE'', ''SOVI_RATNG'',
      ''RESL_SCORE'', ''RESL_RATNG'',
      ''stateCode'', ''countyCode'' ])"

definition nri_url :: "js_string \<Rightarrow> js_string" where
  "nri_url countyFips =
     (let stateCode = take 2 countyFips;
          countyCode = take 3 (drop 2 countyFips)
      in NRI_BASE @ ascii ''?$filter=stateCode eq '' @ [39] @ stateCode @ [39]
           @ ascii '' and countyCode eq '' @ [39] @ countyCode @ [39]
           @ ascii ''&$select='' @ fields)"

text \<open>
  The parsed body \<open>data\<close> is JSON \<open>null\<close>, on which the unguarded \<open>data.NriCountyData\<close>
  throws, or an object whose \<open>NriCountyData\<close> property is falsy (\<open>None\<close>: missing or
  \<open>null\<close>) or an array of records; a record is kept abstract (\<open>'r\<close>).
\<close>

datatype 'r nri_body = Null_body | Object_body "'r list option"

definition fetchNRIData :: "(js_string \<Rightarrow> 'r nri_body fetch_result) \<Rightarrow> js_string
    \<Rightarrow> event list \<Rightarrow> (js_error + 'r) \<times> event list" where
  "fetchNRIData net countyFips tr =
     (case fetch net (nri_url countyFips) tr of
        (Rejected e, tr') \<Rightarrow> (Inl e, tr')
      | (Response status body, tr') \<Rightarrow>
          if \<not> ok status then
            (Inl (JsError Error (ascii ''FEMA API error: '' @ decimal status)), tr')
          else
            (case body of
               Inl e \<Rightarrow> (Inl e, tr')
             | Inr data \<Rightarrow>
                 (case data of
                    Null_body \<Rightarrow> (Inl (cannot_read Is_null ''NriCountyData''), tr')
                  | Object_body NriCountyData \<Rightarrow>
                      (case NriCountyData of
                         None \<Rightarrow>
                           (Inl (JsError Error (ascii ''No NRI data found for this county.'')), tr')
                       | Some [] \<Rightarrow>
                           (Inl (JsError Error (ascii ''No NRI data found for this county.'')), tr')
                       | Some (first # _) \<Rightarrow> (Inr first, tr')))))"


section \<open>LocationResolver: \<open>zipToCountyFips\<close>\<close>

text \<open>
  The shape of the geocoder's answer. Arrays are arrays and the leaves are typed as the
  service sends them: the county codes and names and the matched address are strings, the
  coordinates are numbers, on which \<open>parseFloat\<close> is the identity. Everything the code
  walks through on the way to a leaf may be missing:
  \<^item> a property read behind a guard (\<open>?.\<close> or a falsiness test) is an option;
  \<^item> an element of \<open>addressMatches\<close> or of \<open>Counties\<close> may be \<open>null\<close> (\<open>None\<close>), and
    \<open>match.coordinates\<close> may be missing or \<open>null\<close> (\<open>Inl\<close>): the code reads
    \<open>match.geographies\<close>, \<open>county.STATE\<close> and \<open>match.coordinates.y\<close> without a guard,
    and the read throws a \<open>TypeError\<close> there.
\<close>

record county =
  STATE :: js_string
  COUNTY :: js_string
  NAME :: js_string

record coordinates =
  coord_x :: real
  coord_y :: real

record address_match =
  Counties :: "county option list option option"
  addressComponents_state :: "js_string option"
  coordinates :: "nullish + coordinates"
  match_matchedAddress :: js_string

text \<open>
  \<open>Counties m\<close> is \<open>None\<close> when \<open>match.geographies\<close> is missing, \<open>Some None\<close> when it has
  no \<open>Counties\<close>; \<open>addressComponents_state m\<close> is \<open>match.addressComponents?.state\<close>.
  Likewise \<open>addressMatches\<close> below is \<open>data?.result?.addressMatches\<close>: \<open>None\<close> when the
  data, its \<open>result\<close> or the property is missing.
\<close>

type_synonym geocode_data = "address_match option list option"

record county_location =
  fips :: js_string
  countyName :: js_string
  stateName :: "js_string option"
  lat :: real
  lng :: real
  matchedAddress :: js_string

definition geocoder_url :: "js_string \<Rightarrow> js_string" where
  "geocoder_url zip' =
     ascii ''https://geocoding.geo.census.gov/geocoder/geographies/onelineaddress?address=''
       @ zip' @ ascii ''&benchmark=Public_AR_Current&vintage=Current_Current&format=json''"

definition zipToCountyFips :: "(js_string \<Rightarrow> geocode_data fetch_result) \<Rightarrow> js_string
    \<Rightarrow> event list \<Rightarrow> (js_error + county_location) \<times> event list" where
  "zipToCountyFips net zip' tr =
     (case fetch net (geocoder_url zip') tr of
        (Rejected e, tr') \<Rightarrow> (Inl e, tr')
      | (Response status body, tr') \<Rightarrow>
          if \<not> ok status then
            (Inl (JsError Error (ascii ''Geocoding service unavailable'')), tr')
          else
            (case body of
               Inl e \<Rightarrow> (Inl e, tr')
             | Inr matches \<Rightarrow>
                 (case matches of
                    None \<Rightarrow> (Inl (JsError Error (ascii
                      ''Could not find location for this ZIP code. Please check and try again.'')), tr')
                  | Some [] \<Rightarrow> (Inl (JsError Error (ascii
                      ''Could not find location for this ZIP code. Please check and try again.'')), tr')
                  | Some (None # _) \<Rightarrow> (Inl (cannot_read Is_null ''geographies''), tr')
                  | Some (Some match # _) \<Rightarrow>
                      (case (case Counties match of None \<Rightarrow> None | Some counties \<Rightarrow> counties) of
                         None \<Rightarrow> (Inl (JsError Error (ascii
                           ''Could not determine county for this ZIP code.'')), tr')
                       | Some [] \<Rightarrow> (Inl (JsError Error (ascii
                           ''Could not determine county for this ZIP code.'')), tr')
                       | Some (None # _) \<Rightarrow> (Inl (cannot_read Is_null ''STATE''), tr')
                       | Some (Some county # _) \<Rightarrow>
                           (case coordinates match of
                              Inl v \<Rightarrow> (Inl (cannot_read v ''y''), tr')
                            | Inr xy \<Rightarrow>
                                (Inr \<lparr>fips = STATE county @ COUNTY county,
                                      countyName = NAME county,
                                      stateName = addressComponents_state match,
                                      lat = coord_y xy,
                                      lng = coord_x xy,
                                      matchedAddress = match_matchedAddress match\<rparr>, tr'))))))"


section \<open>RiskLookupOrchestrator: the \<open>App\<close> component's state and \<open>handleSearch\<close>\<close>

text \<open>The \<open>useState\<close> cells of \<open>App\<close>; \<open>null\<close> is \<open>None\<close>.\<close>

record 'r app_state =
  activeTab :: js_string
  zipCode :: js_string
  loading :: bool
  error :: "js_string option"
  locationInfo :: "county_location option"
  nriData :: "'r option"
  expandedHazard :: "js_string option"
  hasSearched :: bool

definition initial_state :: "'r app_state" where
  "initial_state =
     \<lparr>activeTab = ascii ''calculator'', zipCode = [], loading = False, error = None,
      locationInfo = None, nriData = None, expandedHazard = None, hasSearched = False\<rparr>"

text \<open>
  \<open>String.prototype.trim\<close> removes the white space and line terminators of ECMAScript
  from both ends: TAB, LF, VT, FF, CR, SP, NBSP, U+1680, U+2000 to U+200A, U+2028, U+2029,
  U+202F, U+205F, U+3000 and U+FEFF.
\<close>

definition is_white_space :: "nat \<Rightarrow> bool" where
  "is_white_space c =
     ((9 \<le> c \<and> c \<le> 13) \<or> c = 32 \<or> c = 160 \<or> c = 5760 \<or> (8192 \<le> c \<and> c \<le> 8202)
      \<or> c = 8232 \<or> c = 8233 \<or> c = 8239 \<or> c = 8287 \<or> c = 12288 \<or> c = 65279)"

definition trim :: "js_string \<Rightarrow> js_string" where
  "trim s = rev (dropWhile is_white_space (rev (dropWhile is_white_space s)))"

text \<open>\<open>\d\<close> without the unicode flag is \<open>[0-9]\<close>; \<open>/^\d{5}$/.test\<close> asks for five of them and nothing else.\<close>

definition is_digit :: "nat \<Rightarrow> bool" where
  "is_digit c = (48 \<le> c \<and> c \<le> 57)"

definition test_five_digits :: "js_string \<Rightarrow> bool" where
  "test_five_digits s = (length s = 5 \<and> list_all is_digit s)"

text \<open>
  The six calls \<open>setLoading(true)\<close>, \<open>setError(null)\<close>, \<open>setNriData(null)\<close>,
  \<open>setLocationInfo(null)\<close>, \<open>setExpandedHazard(null)\<close>, \<open>setHasSearched(true)\<close> that
  follow a passed validation.
\<close>

definition reset_session :: "'r app_state \<Rightarrow> 'r app_state" where
  "reset_session st =
     st\<lparr>loading := True, error := None, nriData := None, locationInfo := None,
        expandedHazard := None, hasSearched := True\<rparr>"

text \<open>
  \<open>handleSearch\<close> runs in three synchronous pieces, separated by its two \<open>await\<close>s.
  The first validates and, when the ZIP code is valid, resets the state and hands on the
  cleaned ZIP code for \<open>zipToCountyFips\<close>.
\<close>

definition handleSearch_start :: "'r app_state \<Rightarrow> 'r app_state \<times> js_string option" where
  "handleSearch_start st =
     (let cleaned = trim (zipCode st) in
      if \<not> test_five_digits cleaned then
        (st\<lparr>error := Some (ascii ''Please enter a valid 5-digit US ZIP code.'')\<rparr>, None)
      else
        (reset_session st, Some cleaned))"

text \<open>
  The \<open>catch\<close> and \<open>finally\<close> blocks: \<open>err.message || "An error occurred..."\<close> takes the
  fallback when the message is the empty string.
\<close>

definition catch_finally :: "js_error \<Rightarrow> 'r app_state \<Rightarrow> 'r app_state" where
  "catch_finally err st =
     st\<lparr>error := Some (if message err = [] then ascii ''An error occurred. Please try again.''
                        else message err),
        loading := False\<rparr>"

text \<open>
  The second piece resumes with the outcome of \<open>zipToCountyFips\<close>: a location is stored
  and its FIPS code handed on for \<open>fetchNRIData\<close>; a thrown error ends the run.
\<close>

definition handleSearch_resolved :: "js_error + county_location \<Rightarrow> 'r app_state
    \<Rightarrow> 'r app_state \<times> js_string option" where
  "handleSearch_resolved outcome st =
     (case outcome of
        Inl err \<Rightarrow> (catch_finally err st, None)
      | Inr location \<Rightarrow> (st\<lparr>locationInfo := Some location\<rparr>, Some (fips location)))"

text \<open>The third piece resumes with the outcome of \<open>fetchNRIData\<close>.\<close>

definition handleSearch_fetched :: "js_error + 'r \<Rightarrow> 'r app_state \<Rightarrow> 'r app_state" where
  "handleSearch_fetched outcome st =
     (case outcome of
        Inl err \<Rightarrow> catch_finally err st
      | Inr nri \<Rightarrow> st\<lparr>nriData := Some nri, loading := False\<rparr>)"

text \<open>
  One uninterrupted run of \<open>handleSearch\<close> against a geocoder and a hazard-index service,
  from a state and a trace to the state and trace when its promise settles.
\<close>

definition handleSearch :: "(js_string \<Rightarrow> geocode_data fetch_result)
    \<Rightarrow> (js_string \<Rightarrow> 'r nri_body fetch_result)
    \<Rightarrow> 'r app_state \<times> event list \<Rightarrow> 'r app_state \<times> event list" where
  "handleSearch geocoder fema run =
     (case run of (st, tr) \<Rightarrow>
        (case handleSearch_start st of
           (st1, None) \<Rightarrow> (st1, tr)
         | (st1, Some cleaned) \<Rightarrow>
             (case zipToCountyFips geocoder cleaned (tr @ [Call_zipToCountyFips cleaned]) of
                (resolved, tr1) \<Rightarrow>
                  (case handleSearch_resolved resolved st1 of
                     (st2, None) \<Rightarrow> (st2, tr1)
                   | (st2, Some countyFips) \<Rightarrow>
                       (case fetchNRIData fema countyFips (tr1 @ [Call_fetchNRIData countyFips]) of
                          (fetched, tr2) \<Rightarrow> (handleSearch_fetched fetched st2, tr2))))))"

text \<open>What the calculator tab renders: the error box and the results block.\<close>

definition error_shown :: "'r app_state \<Rightarrow> bool" where
  "error_shown st = (case error st of None \<Rightarrow> False | Some m \<Rightarrow> m \<noteq> [])"

definition results_shown :: "'r app_state \<Rightarrow> bool" where
  "results_shown st = (\<not> loading st \<and> nriData st \<noteq> None \<and> locationInfo st \<noteq> None)"


section \<open>The user-facing surface: events of the page\<close>

text \<open>
  The page between events: the state cells and the runs of \<open>handleSearch\<close> that are
  suspended at an \<open>await\<close>, in the order they were started. A run is waiting for
  \<open>zipToCountyFips\<close>, waiting for \<open>fetchNRIData\<close>, or has settled.
\<close>

datatype stage = Resolving js_string | Fetching js_string | Settled

record 'r page =
  cells :: "'r app_state"
  runs :: "stage list"

datatype 'r ui_event =
    Change js_string
  | Click_submit
  | KeyDown js_string
  | Resolved nat "js_error + county_location"
  | Fetched nat "js_error + 'r"

definition start_run :: "'r page \<Rightarrow> 'r page" where
  "start_run p =
     (case handleSearch_start (cells p) of
        (st, None) \<Rightarrow> p\<lparr>cells := st\<rparr>
      | (st, Some cleaned) \<Rightarrow> p\<lparr>cells := st, runs := runs p @ [Resolving cleaned]\<rparr>)"

text \<open>\<open>onChange\<close> of the input: \<open>e.target.value.replace(/\D/g, "").slice(0, 5)\<close>.\<close>

definition onChange :: "js_string \<Rightarrow> 'r page \<Rightarrow> 'r page" where
  "onChange v p = p\<lparr>cells := (cells p)\<lparr>zipCode := take 5 (filter is_digit v)\<rparr>\<rparr>"

text \<open>The button carries \<open>disabled={loading}\<close>: a disabled button delivers no click.\<close>

definition onClick :: "'r page \<Rightarrow> 'r page" where
  "onClick p = (if loading (cells p) then p else start_run p)"

definition handleKeyDown :: "js_string \<Rightarrow> 'r page \<Rightarrow> 'r page" where
  "handleKeyDown key p = (if key = ascii ''Enter'' then start_run p else p)"

definition settle_resolve :: "nat \<Rightarrow> js_error + county_location \<Rightarrow> 'r page \<Rightarrow> 'r page" where
  "settle_resolve i outcome p =
     (if i < length (runs p) then
        (case runs p ! i of
           Resolving cleaned \<Rightarrow>
             (case handleSearch_resolved outcome (cells p) of
                (st, None) \<Rightarrow> p\<lparr>cells := st, runs := (runs p)[i := Settled]\<rparr>
              | (st, Some countyFips) \<Rightarrow> p\<lparr>cells := st, runs := (runs p)[i := Fetching countyFips]\<rparr>)
         | Fetching countyFips \<Rightarrow> p
         | Settled \<Rightarrow> p)
      else p)"

definition settle_fetch :: "nat \<Rightarrow> js_error + 'r \<Rightarrow> 'r page \<Rightarrow> 'r page" where
  "settle_fetch i outcome p =
     (if i < length (runs p) then
        (case runs p ! i of
           Fetching countyFips \<Rightarrow>
             p\<lparr>cells := handleSearch_fetched outcome (cells p), runs := (runs p)[i := Settled]\<rparr>
         | Resolving cleaned \<Rightarrow> p
         | Settled \<Rightarrow> p)
      else p)"

fun dispatch :: "'r page \<Rightarrow> 'r ui_event \<Rightarrow> 'r page" where
  "dispatch p (Change v) = onChange v p"
| "dispatch p Click_submit = onClick p"
| "dispatch p (KeyDown key) = handleKeyDown key p"
| "dispatch p (Resolved i outcome) = settle_resolve i outcome p"
| "dispatch p (Fetched i outcome) = settle_fetch i outcome p"

definition in_flight :: "'r page \<Rightarrow> nat" where
  "in_flight p = length (filter (\<lambda>r. r \<noteq> Settled) (runs p))"


section \<open>Concrete services and records for the examples\<close>

text \<open>
  A hazard record is read by property name (\<open>nriData?.[`${key}_RISKS`]\<close>); for the
  examples it is a list of properties, and a missing property reads as \<open>undefined\<close>.
\<close>

type_synonym nri_record = "(js_string \<times> score) list"

definition property :: "nri_record \<Rightarrow> js_string \<Rightarrow> score" where
  "property r name = (case map_of r name of None \<Rightarrow> Undefined | Some v \<Rightarrow> v)"

definition failed_to_fetch :: js_error where
  "failed_to_fetch = JsError TypeError (ascii ''Failed to fetch'')"

definition geocoder_offline :: "js_string \<Rightarrow> geocode_data fetch_result" where
  "geocoder_offline url = Rejected failed_to_fetch"

definition geocoder_silent :: "js_string \<Rightarrow> geocode_data fetch_result" where
  "geocoder_silent url = Rejected (JsError Error [])"

definition geocoder_no_match :: "js_string \<Rightarrow> geocode_data fetch_result" where
  "geocoder_no_match url = Response 200 (Inr (Some []))"

definition los_angeles :: address_match where
  "los_angeles =
     \<lparr>Counties = Some (Some [Some \<lparr>STATE = ascii ''06'', COUNTY = ascii ''037'',
                                     NAME = ascii ''Los Angeles County''\<rparr>]),
      addressComponents_state = Some (ascii ''CA''),
      coordinates = Inr \<lparr>coord_x = - 118.4, coord_y = 34.1\<rparr>,
      match_matchedAddress = ascii ''BEVERLY HILLS, CA, 90210''\<rparr>"

definition geocoder_90210 :: "js_string \<Rightarrow> geocode_data fetch_result" where
  "geocoder_90210 url = Response 200 (Inr (Some [Some los_angeles]))"

definition location_06037 :: county_location where
  "location_06037 =
     \<lparr>fips = ascii ''06037'', countyName = ascii ''Los Angeles County'',
      stateName = Some (ascii ''CA''), lat = 34.1, lng = - 118.4,
      matchedAddress = ascii ''BEVERLY HILLS, CA, 90210''\<rparr>"

definition record_06037 :: nri_record where
  "record_06037 = [(ascii ''county'', Undefined), (ascii ''ERQK_RISKS'', Num 42.3)]"

definition fema_06037 :: "js_string \<Rightarrow> nri_record nri_body fetch_result" where
  "fema_06037 url = Response 200 (Inr (Object_body (Some [record_06037])))"

definition fema_offline :: "js_string \<Rightarrow> nri_record nri_body fetch_result" where
  "fema_offline url = Rejected failed_to_fetch"

definition fema_not_json :: "js_string \<Rightarrow> nri_record nri_body fetch_result" where
  "fema_not_json url =
     Response 200 (Inl (JsError SyntaxError (ascii ''Unexpected token < in JSON at position 0'')))"

definition fema_503 :: "js_string \<Rightarrow> nri_record nri_body fetch_result" where
  "fema_503 url = Response 503 (Inr (Object_body None))"

definition geocoder_503 :: "js_string \<Rightarrow> geocode_data fetch_result" where
  "geocoder_503 url = Response 503 (Inr None)"

definition geocoder_not_json :: "js_string \<Rightarrow> geocode_data fetch_result" where
  "geocoder_not_json url =
     Response 200 (Inl (JsError SyntaxError (ascii ''Unexpected token < in JSON at position 0'')))"

definition geocoder_no_county :: "js_string \<Rightarrow> geocode_data fetch_result" where
  "geocoder_no_county url =
     Response 200 (Inr (Some [Some (los_angeles\<lparr>Counties := Some None\<rparr>)]))"

definition geocoder_null_match :: "js_string \<Rightarrow> geocode_data fetch_result" where
  "geocoder_null_match url = Response 200 (Inr (Some [None]))"

definition geocoder_null_county :: "js_string \<Rightarrow> geocode_data fetch_result" where
  "geocoder_null_county url =
     Response 200 (Inr (Some [Some (los_angeles\<lparr>Counties := Some (Some [None])\<rparr>)]))"

definition geocoder_no_coordinates :: "js_string \<Rightarrow> geocode_data fetch_result" where
  "geocoder_no_coordinates url =
     Response 200 (Inr (Some [Some (los_angeles\<lparr>coordinates := Inl Is_undefined\<rparr>)]))"

definition fema_empty :: "js_string \<Rightarrow> nri_record nri_body fetch_result" where
  "fema_empty url = Response 200 (Inr (Object_body (Some [])))"

definition fema_null :: "js_string \<Rightarrow> nri_record nri_body fetch_result" where
  "fema_null url = Response 200 (Inr Null_body)"

definition location_36061 :: county_location where
  "location_36061 =
     \<lparr>fips = ascii ''36061'', countyName = ascii ''New York County'',
      stateName = Some (ascii ''NY''), lat = 40.75, lng = - 73.99,
      matchedAddress = ascii ''NEW YORK, NY, 10001''\<rparr>"

definition record_36061 :: nri_record where
  "record_36061 = [(ascii ''ERQK_RISKS'', Num 7.5)]"

definition initial_page :: "'r page" where
  "initial_page = \<lparr>cells = initial_state, runs = []\<rparr>"

definition page0 :: "nri_record page" where
  "page0 = \<lparr>cells = initial_state, runs = []\<rparr>"

definition typed :: "js_string \<Rightarrow> nri_record app_state" where
  "typed z = initial_state\<lparr>zipCode := z\<rparr>"

text \<open>
  Runs of the page: one submission of 90210 by the button, left waiting for the
  geocoder; the same followed by 10001 submitted with Enter, where the first run
  succeeds and the second then fails; and the same two submissions where the second run
  settles first, before the first run's location arrives.
\<close>

definition busy_page :: "nri_record page" where
  "busy_page = foldl dispatch page0 [Change (ascii ''90210''), Click_submit]"

definition overlapped :: "nri_record page" where
  "overlapped = foldl dispatch busy_page
     [Change (ascii ''10001''), KeyDown (ascii ''Enter''),
      Resolved 0 (Inr location_06037), Fetched 0 (Inr record_06037),
      Resolved 1 (Inl failed_to_fetch)]"

definition interleaved :: "nri_record page" where
  "interleaved = foldl dispatch busy_page
     [Change (ascii ''10001''), KeyDown (ascii ''Enter''),
      Resolved 1 (Inr location_36061), Fetched 1 (Inr record_36061),
      Resolved 0 (Inr location_06037)]"


section \<open>Properties of the classifier and the estimator\<close>

text \<open>
  C1. For every present risk score \<open>s\<close>, \<open>getRiskRating\<close> returns the band of the fixed
  table: from 0 to 15 "Very Low", above 15 to 30 "Relatively Low", above 30 to 50
  "Relatively Moderate", above 50 to 70 "Relatively High", above 70 to 100 "Very High".
  The bounds are inclusive, so 15, 30, 50 and 70 fall in the lower band, and a score above
  100 gets the highest tier.
\<close>

theorem getRiskRating_bands:
  fixes s :: real
  shows "(0 \<le> s \<and> s \<le> 15 \<longrightarrow>
            getRiskRating (Num s) = RISK_RATINGS ! 0
            \<and> label (getRiskRating (Num s)) = ascii ''Very Low'')
       \<and> (15 < s \<and> s \<le> 30 \<longrightarrow>
            getRiskRating (Num s) = RISK_RATINGS ! 1
            \<and> label (getRiskRating (Num s)) = ascii ''Relatively Low'')
       \<and> (30 < s \<and> s \<le> 50 \<longrightarrow>
            getRiskRating (Num s) = RISK_RATINGS ! 2
            \<and> label (getRiskRating (Num s)) = ascii ''Relatively Moderate'')
       \<and> (50 < s \<and> s \<le> 70 \<longrightarrow>
            getRiskRating (Num s) = RISK_RATINGS ! 3
            \<and> label (getRiskRating (Num s)) = ascii ''Relatively High'')
       \<and> (70 < s \<and> s \<le> 100 \<longrightarrow>
            getRiskRating (Num s) = RISK_RATINGS ! 4
            \<and> label (getRiskRating (Num s)) = ascii ''Very High'')
       \<and> (100 < s \<longrightarrow>
            getRiskRating (Num s) = RISK_RATINGS ! 4
            \<and> label (getRiskRating (Num s)) = ascii ''Very High'')"
  by (simp add: RISK_RATINGS_def)

theorem getRiskRating_bands_witness:
  "label (getRiskRating (Num 0)) = ascii ''Very Low''
 \<and> label (getRiskRating (Num 15)) = ascii ''Very Low''
 \<and> label (getRiskRating (Num 30)) = ascii ''Relatively Low''
 \<and> label (getRiskRating (Num 42.3)) = ascii ''Relatively Moderate''
 \<and> label (getRiskRating (Num 50)) = ascii ''Relatively Moderate''
 \<and> label (getRiskRating (Num 70)) = ascii ''Relatively High''
 \<and> label (getRiskRating (Num 100)) = ascii ''Very High''
 \<and> label (getRiskRating (Num 250)) = ascii ''Very High''"
  using getRiskRating_bands [of 0] getRiskRating_bands [of 15] getRiskRating_bands [of 30]
    getRiskRating_bands [of "42.3"] getRiskRating_bands [of 50] getRiskRating_bands [of 70]
    getRiskRating_bands [of 100] getRiskRating_bands [of 250]
  by (simp add: RISK_RATINGS_def del: getRiskRating.simps)

text \<open>
  C2. For every present, non-negative score \<open>s\<close>, \<open>scoreToOdds\<close> returns the bucket of the
  fixed table of thresholds 5, 15, 30, 50, 70, 85, with its text, detail and odds; each
  threshold belongs to the bucket it closes, 0 to the first and 100 to the last.
\<close>

theorem scoreToOdds_buckets:
  fixes s :: real
  shows "(0 \<le> s \<and> s \<le> 5 \<longrightarrow> scoreToOdds (Num s) k =
            \<lparr>text_r = ascii ''< 0.1%'',
             detail = ascii ''Less than 1 in 1,000 chance per year'', odds = Some 0.001\<rparr>)
       \<and> (5 < s \<and> s \<le> 15 \<longrightarrow> scoreToOdds (Num s) k =
            \<lparr>text_r = ascii ''~0.1'' @ en_dash @ ascii ''0.5%'',
             detail = ascii ''Roughly 1 in 200 to 1 in 1,000 per year'', odds = Some 0.003\<rparr>)
       \<and> (15 < s \<and> s \<le> 30 \<longrightarrow> scoreToOdds (Num s) k =
            \<lparr>text_r = ascii ''~0.5'' @ en_dash @ ascii ''2%'',
             detail = ascii ''Roughly 1 in 50 to 1 in 200 per year'', odds = Some 0.01\<rparr>)
       \<and> (30 < s \<and> s \<le> 50 \<longrightarrow> scoreToOdds (Num s) k =
            \<lparr>text_r = ascii ''~2'' @ en_dash @ ascii ''5%'',
             detail = ascii ''Roughly 1 in 20 to 1 in 50 per year'', odds = Some 0.035\<rparr>)
       \<and> (50 < s \<and> s \<le> 70 \<longrightarrow> scoreToOdds (Num s) k =
            \<lparr>text_r = ascii ''~5'' @ en_dash @ ascii ''15%'',
             detail = ascii ''Roughly 1 in 7 to 1 in 20 per year'', odds = Some 0.1\<rparr>)
       \<and> (70 < s \<and> s \<le> 85 \<longrightarrow> scoreToOdds (Num s) k =
            \<lparr>text_r = ascii ''~15'' @ en_dash @ ascii ''30%'',
             detail = ascii ''Roughly 1 in 3 to 1 in 7 per year'', odds = Some 0.225\<rparr>)
       \<and> (85 < s \<longrightarrow> scoreToOdds (Num s) k =
            \<lparr>text_r = ascii ''> 30%'',
             detail = ascii ''Greater than 1 in 3 chance per year'', odds = Some 0.4\<rparr>)"
  by simp

theorem scoreToOdds_buckets_witness:
  "text_r (scoreToOdds (Num 0) (ascii ''TRND'')) = ascii ''< 0.1%''
 \<and> text_r (scoreToOdds (Num 5) (ascii ''TRND'')) = ascii ''< 0.1%''
 \<and> text_r (scoreToOdds (Num 15) (ascii ''TRND'')) = ascii ''~0.1'' @ en_dash @ ascii ''0.5%''
 \<and> text_r (scoreToOdds (Num 30) (ascii ''TRND'')) = ascii ''~0.5'' @ en_dash @ ascii ''2%''
 \<and> text_r (scoreToOdds (Num 50) (ascii ''TRND'')) = ascii ''~2'' @ en_dash @ ascii ''5%''
 \<and> text_r (scoreToOdds (Num 70) (ascii ''TRND'')) = ascii ''~5'' @ en_dash @ ascii ''15%''
 \<and> text_r (scoreToOdds (Num 85) (ascii ''TRND'')) = ascii ''~15'' @ en_dash @ ascii ''30%''
 \<and> text_r (scoreToOdds (Num 100) (ascii ''TRND'')) = ascii ''> 30%''"
  using scoreToOdds_buckets [of 0 "ascii ''TRND''"] scoreToOdds_buckets [of 5 "ascii ''TRND''"] scoreToOdds_buckets [of 15 "ascii ''TRND''"]
    scoreToOdds_buckets [of 30 "ascii ''TRND''"] scoreToOdds_buckets [of 50 "ascii ''TRND''"] scoreToOdds_buckets [of 70 "ascii ''TRND''"]
    scoreToOdds_buckets [of 85 "ascii ''TRND''"] scoreToOdds_buckets [of 100 "ascii ''TRND''"]
  by (simp del: scoreToOdds.simps)

text \<open>
  C8. For every absent (\<open>null\<close> or \<open>undefined\<close>) or negative score, \<open>getRiskRating\<close>
  returns the "No Data" band, with its neutral colour and outside the five ordered tiers,
  and \<open>scoreToOdds\<close> returns the insufficient-data descriptor, with an empty detail and
  no odds.
\<close>

theorem absent_or_negative_no_data:
  assumes "absent_or_negative sc"
  shows "getRiskRating sc =
           \<lparr>label = ascii ''No Data'', max_r = None,
            color = ascii ''#95a5a6'', bg = ascii ''#f0f0f0''\<rparr>
       \<and> getRiskRating sc \<notin> set RISK_RATINGS
       \<and> scoreToOdds sc k =
           \<lparr>text_r = ascii ''Insufficient data'', detail = [], odds = None\<rparr>"
  using assms by (cases sc) (simp_all add: NO_DATA_def RISK_RATINGS_def ascii_def)

theorem absent_or_negative_no_data_witness:
  "absent_or_negative (Num (- 1))
 \<and> label (getRiskRating (Num (- 1))) = ascii ''No Data''
 \<and> label (getRiskRating Null) = ascii ''No Data''
 \<and> label (getRiskRating Undefined) = ascii ''No Data''
 \<and> getRiskRating (Num (- 1)) \<notin> set RISK_RATINGS
 \<and> odds (scoreToOdds (Num (- 1)) (ascii ''ERQK'')) = None
 \<and> detail (scoreToOdds Undefined (ascii ''ERQK'')) = []"
  using absent_or_negative_no_data [of "Num (- 1)" "ascii ''ERQK''"] absent_or_negative_no_data [of Null "ascii ''ERQK''"]
    absent_or_negative_no_data [of Undefined "ascii ''ERQK''"]
  by (auto simp del: getRiskRating.simps scoreToOdds.simps)

text \<open>
  C10. The result of \<open>scoreToOdds\<close> depends on the score only: any two hazard keys give
  the same descriptor.
\<close>

theorem scoreToOdds_ignores_hazardKey:
  "scoreToOdds sc k1 = scoreToOdds sc k2"
  by (cases sc) simp_all


section \<open>Properties of the resolver and the fetcher\<close>

lemma cannot_read_class: "cannot_read v name \<noteq> JsError Error m"
  by (simp add: cannot_read_def)

text \<open>
  C5, as the code has it. When the geocoder answers with a body of the service's types,
  \<open>zipToCountyFips\<close> fails with one of its own three errors, which have three different
  messages: a non-success status gives "Geocoding service unavailable"; no address match
  gives "Could not find location for this ZIP code..."; a first match without a county
  gives "Could not determine county for this ZIP code.". It fails with the runtime's
  \<open>TypeError\<close>, which is none of the three, when the first address match is \<open>null\<close>, when
  the first county is \<open>null\<close>, and when the match has a county but no coordinates.
  Otherwise it returns the location built from the first match and its first county.
  A rejected request and a body that does not parse are thrown on as they are.
\<close>

theorem zipToCountyFips_outcomes:
  "(\<forall>e. geocoder (geocoder_url z) = Rejected e \<longrightarrow>
      fst (zipToCountyFips geocoder z tr) = Inl e)
 \<and> (\<forall>status body. geocoder (geocoder_url z) = Response status body \<longrightarrow>
      (\<not> ok status \<longrightarrow> fst (zipToCountyFips geocoder z tr) =
          Inl (JsError Error (ascii ''Geocoding service unavailable'')))
    \<and> (\<forall>e. ok status \<and> body = Inl e \<longrightarrow> fst (zipToCountyFips geocoder z tr) = Inl e)
    \<and> (ok status \<and> (body = Inr None \<or> body = Inr (Some [])) \<longrightarrow>
          fst (zipToCountyFips geocoder z tr) = Inl (JsError Error (ascii
            ''Could not find location for this ZIP code. Please check and try again.'')))
    \<and> (\<forall>others. ok status \<and> body = Inr (Some (None # others)) \<longrightarrow>
          fst (zipToCountyFips geocoder z tr) = Inl (cannot_read Is_null ''geographies''))
    \<and> (\<forall>match others. ok status \<and> body = Inr (Some (Some match # others)) \<longrightarrow>
          (Counties match = None \<or> Counties match = Some None \<or> Counties match = Some (Some [])
             \<longrightarrow> fst (zipToCountyFips geocoder z tr) = Inl (JsError Error (ascii
                   ''Could not determine county for this ZIP code.'')))
        \<and> (\<forall>rest. Counties match = Some (Some (None # rest)) \<longrightarrow>
             fst (zipToCountyFips geocoder z tr) = Inl (cannot_read Is_null ''STATE''))
        \<and> (\<forall>county rest. Counties match = Some (Some (Some county # rest)) \<longrightarrow>
             (\<forall>v. coordinates match = Inl v \<longrightarrow>
                fst (zipToCountyFips geocoder z tr) = Inl (cannot_read v ''y''))
           \<and> (\<forall>xy. coordinates match = Inr xy \<longrightarrow>
                fst (zipToCountyFips geocoder z tr) =
                  Inr \<lparr>fips = STATE county @ COUNTY county, countyName = NAME county,
                       stateName = addressComponents_state match,
                       lat = coord_y xy, lng = coord_x xy,
                       matchedAddress = match_matchedAddress match\<rparr>))))
 \<and> distinct [ascii ''Geocoding service unavailable'',
      ascii ''Could not find location for this ZIP code. Please check and try again.'',
      ascii ''Could not determine county for this ZIP code.'']
 \<and> (\<forall>v name. cannot_read v name \<notin> set
      [JsError Error (ascii ''Geocoding service unavailable''),
       JsError Error (ascii
         ''Could not find location for this ZIP code. Please check and try again.''),
       JsError Error (ascii ''Could not determine county for this ZIP code.'')])"
proof -
  have d: "distinct [ascii ''Geocoding service unavailable'',
      ascii ''Could not find location for this ZIP code. Please check and try again.'',
      ascii ''Could not determine county for this ZIP code.'']"
    by (simp add: ascii_def)
  show ?thesis
    by (intro conjI d) (auto simp add: zipToCountyFips_def fetch_def cannot_read_class)
qed

lemma fips_join: "ascii ''06'' @ ascii ''037'' = ascii ''06037''"
  by (simp add: ascii_def)

theorem zipToCountyFips_outcomes_witness:
  "\<not> ok 503
 \<and> fst (zipToCountyFips geocoder_503 (ascii ''90210'') []) =
     Inl (JsError Error (ascii ''Geocoding service unavailable''))
 \<and> ok 200
 \<and> fst (zipToCountyFips geocoder_no_match (ascii ''00000'') []) = Inl (JsError Error (ascii
       ''Could not find location for this ZIP code. Please check and try again.''))
 \<and> fst (zipToCountyFips geocoder_no_county (ascii ''90210'') []) = Inl (JsError Error (ascii
       ''Could not determine county for this ZIP code.''))
 \<and> fst (zipToCountyFips geocoder_null_match (ascii ''90210'') []) =
     Inl (cannot_read Is_null ''geographies'')
 \<and> fst (zipToCountyFips geocoder_null_county (ascii ''90210'') []) =
     Inl (cannot_read Is_null ''STATE'')
 \<and> fst (zipToCountyFips geocoder_no_coordinates (ascii ''90210'') []) =
     Inl (cannot_read Is_undefined ''y'')
 \<and> fst (zipToCountyFips geocoder_90210 (ascii ''90210'') []) = Inr location_06037
 \<and> fst (zipToCountyFips geocoder_offline (ascii ''90210'') []) = Inl failed_to_fetch
 \<and> fst (zipToCountyFips geocoder_not_json (ascii ''90210'') []) =
     Inl (JsError SyntaxError (ascii ''Unexpected token < in JSON at position 0''))"
  using zipToCountyFips_outcomes [of geocoder_503 "ascii ''90210''" "[]"]
    zipToCountyFips_outcomes [of geocoder_no_match "ascii ''00000''" "[]"]
    zipToCountyFips_outcomes [of geocoder_no_county "ascii ''90210''" "[]"]
    zipToCountyFips_outcomes [of geocoder_null_match "ascii ''90210''" "[]"]
    zipToCountyFips_outcomes [of geocoder_null_county "ascii ''90210''" "[]"]
    zipToCountyFips_outcomes [of geocoder_no_coordinates "ascii ''90210''" "[]"]
    zipToCountyFips_outcomes [of geocoder_90210 "ascii ''90210''" "[]"]
    zipToCountyFips_outcomes [of geocoder_offline "ascii ''90210''" "[]"]
    zipToCountyFips_outcomes [of geocoder_not_json "ascii ''90210''" "[]"]
  by (simp add: geocoder_503_def geocoder_no_match_def geocoder_no_county_def
      geocoder_null_match_def geocoder_null_county_def geocoder_no_coordinates_def
      geocoder_90210_def geocoder_offline_def geocoder_not_json_def ok_def los_angeles_def
      location_06037_def fips_join)

text \<open>
  C5 as stated fails: with the network down the request is rejected, and the function
  fails with that rejection, which is none of the three errors.
\<close>

theorem zipToCountyFips_fourth_failure_counterexample:
  "fst (zipToCountyFips geocoder_offline (ascii ''90210'') []) = Inl failed_to_fetch
 \<and> failed_to_fetch \<notin> set
     [JsError Error (ascii ''Geocoding service unavailable''),
      JsError Error (ascii ''Could not find location for this ZIP code. Please check and try again.''),
      JsError Error (ascii ''Could not determine county for this ZIP code.'')]"
  by (simp add: zipToCountyFips_def fetch_def geocoder_offline_def failed_to_fetch_def)


lemma status_message_differs:
  "ascii ''FEMA API error: '' @ decimal status \<noteq> ascii ''No NRI data found for this county.''"
  by (simp add: ascii_def)

text \<open>
  C6, as the code has it. When the service answers, \<open>fetchNRIData\<close> throws the error
  that carries the status exactly when the status is not a success. When a success
  response's body parses, it throws "No NRI data found for this county." exactly when the
  body is an object with no record (the array is missing or empty), it throws the
  runtime's \<open>TypeError\<close> when the body is JSON \<open>null\<close>, and it returns the first record when
  the array has one. A rejected request and a body that does not parse are thrown on as
  they are.
\<close>

theorem fetchNRIData_outcomes:
  "(\<forall>e. fema (nri_url countyFips) = Rejected e \<longrightarrow>
      fst (fetchNRIData fema countyFips tr) = Inl e)
 \<and> (\<forall>status body. fema (nri_url countyFips) = Response status body \<longrightarrow>
      (\<not> ok status \<longrightarrow> fst (fetchNRIData fema countyFips tr) =
          Inl (JsError Error (ascii ''FEMA API error: '' @ decimal status)))
    \<and> (\<forall>e. ok status \<and> body = Inl e \<longrightarrow> fst (fetchNRIData fema countyFips tr) = Inl e)
    \<and> (\<forall>data. body = Inr data \<longrightarrow>
          (fst (fetchNRIData fema countyFips tr) =
             Inl (JsError Error (ascii ''FEMA API error: '' @ decimal status)) \<longleftrightarrow> \<not> ok status)
        \<and> (fst (fetchNRIData fema countyFips tr) =
             Inl (JsError Error (ascii ''No NRI data found for this county.''))
             \<longleftrightarrow> ok status \<and> (data = Object_body None \<or> data = Object_body (Some [])))
        \<and> (ok status \<and> data = Null_body \<longrightarrow>
             fst (fetchNRIData fema countyFips tr) = Inl (cannot_read Is_null ''NriCountyData''))
        \<and> (\<forall>first rest. ok status \<and> data = Object_body (Some (first # rest)) \<longrightarrow>
             fst (fetchNRIData fema countyFips tr) = Inr first)))"
  by (auto simp add: fetchNRIData_def fetch_def status_message_differs
      status_message_differs [symmetric] cannot_read_class
      split: option.splits list.splits nri_body.splits)

theorem fetchNRIData_outcomes_witness:
  "\<not> ok 503
 \<and> fst (fetchNRIData fema_503 (ascii ''06037'') []) =
     Inl (JsError Error (ascii ''FEMA API error: 503''))
 \<and> ok 200
 \<and> fst (fetchNRIData fema_empty (ascii ''06037'') []) =
     Inl (JsError Error (ascii ''No NRI data found for this county.''))
 \<and> fst (fetchNRIData fema_null (ascii ''06037'') []) =
     Inl (cannot_read Is_null ''NriCountyData'')
 \<and> fst (fetchNRIData fema_06037 (ascii ''06037'') []) = Inr record_06037
 \<and> fst (fetchNRIData fema_offline (ascii ''06037'') []) = Inl failed_to_fetch
 \<and> fst (fetchNRIData fema_not_json (ascii ''06037'') []) =
     Inl (JsError SyntaxError (ascii ''Unexpected token < in JSON at position 0''))"
proof -
  have d: "decimal 503 = ascii ''503''"
    by (simp add: decimal.simps ascii_def)
  have a: "ascii ''FEMA API error: '' @ ascii ''503'' = ascii ''FEMA API error: 503''"
    by (simp add: ascii_def)
  show ?thesis
    using fetchNRIData_outcomes [of fema_503 "ascii ''06037''" "[]"]
      fetchNRIData_outcomes [of fema_empty "ascii ''06037''" "[]"]
      fetchNRIData_outcomes [of fema_null "ascii ''06037''" "[]"]
      fetchNRIData_outcomes [of fema_06037 "ascii ''06037''" "[]"]
      fetchNRIData_outcomes [of fema_offline "ascii ''06037''" "[]"]
      fetchNRIData_outcomes [of fema_not_json "ascii ''06037''" "[]"]
    by (simp add: fema_503_def fema_empty_def fema_null_def fema_06037_def fema_offline_def
        fema_not_json_def ok_def d a)
qed

text \<open>
  C6 as stated fails: a success response whose body is not JSON gives neither of the two
  errors nor a record, and neither does a rejected request.
\<close>

theorem fetchNRIData_unparsed_counterexample:
  "ok 200
 \<and> fema_not_json (nri_url (ascii ''06037'')) =
     Response 200 (Inl (JsError SyntaxError (ascii ''Unexpected token < in JSON at position 0'')))
 \<and> fst (fetchNRIData fema_not_json (ascii ''06037'') []) =
     Inl (JsError SyntaxError (ascii ''Unexpected token < in JSON at position 0''))
 \<and> JsError SyntaxError (ascii ''Unexpected token < in JSON at position 0'') \<notin> set
     [JsError Error (ascii ''FEMA API error: '' @ decimal 200),
      JsError Error (ascii ''No NRI data found for this county.'')]
 \<and> fst (fetchNRIData fema_offline (ascii ''06037'') []) = Inl failed_to_fetch
 \<and> failed_to_fetch \<noteq> JsError Error (ascii ''No NRI data found for this county.'')"
  by (simp add: fetchNRIData_def fetch_def fema_not_json_def fema_offline_def ok_def
      failed_to_fetch_def)


section \<open>Properties of the orchestrator\<close>


lemma zipToCountyFips_trace:
  "snd (zipToCountyFips net z tr) = tr @ [Http_GET (geocoder_url z)]"
  by (simp add: zipToCountyFips_def fetch_def
      split: fetch_result.split sum.split option.split list.split)

lemma fetchNRIData_trace:
  "snd (fetchNRIData net f tr) = tr @ [Http_GET (nri_url f)]"
  by (simp add: fetchNRIData_def fetch_def
      split: fetch_result.split sum.split option.split list.split nri_body.split)

lemma handleSearch_invalid:
  assumes "\<not> test_five_digits (trim (zipCode st))"
  shows "handleSearch geocoder fema (st, tr) =
    (st\<lparr>error := Some (ascii ''Please enter a valid 5-digit US ZIP code.'')\<rparr>, tr)"
  using assms by (simp add: handleSearch_def handleSearch_start_def)

lemma handleSearch_resolver_throws:
  assumes "test_five_digits (trim (zipCode st))"
    and "zipToCountyFips geocoder (trim (zipCode st)) (tr @ [Call_zipToCountyFips (trim (zipCode st))]) = (Inl err, tr1)"
  shows "handleSearch geocoder fema (st, tr) = (catch_finally err (reset_session st), tr1)"
  using assms by (simp add: handleSearch_def handleSearch_start_def handleSearch_resolved_def)

lemma handleSearch_resolver_returns:
  assumes "test_five_digits (trim (zipCode st))"
    and "zipToCountyFips geocoder (trim (zipCode st)) (tr @ [Call_zipToCountyFips (trim (zipCode st))]) = (Inr location, tr1)"
    and "fetchNRIData fema (fips location) (tr1 @ [Call_fetchNRIData (fips location)]) = (fetched, tr2)"
  shows "handleSearch geocoder fema (st, tr) =
     (handleSearch_fetched fetched ((reset_session st)\<lparr>locationInfo := Some location\<rparr>), tr2)"
  using assms by (simp add: handleSearch_def handleSearch_start_def handleSearch_resolved_def)

text \<open>The requests and calls that one run adds to the trace.\<close>

lemma handleSearch_trace:
  "snd (handleSearch geocoder fema (st, tr)) =
     (if \<not> test_five_digits (trim (zipCode st)) then tr
      else case fst (zipToCountyFips geocoder (trim (zipCode st)) (tr @ [Call_zipToCountyFips (trim (zipCode st))])) of
        Inl err \<Rightarrow> tr @ [Call_zipToCountyFips (trim (zipCode st)), Http_GET (geocoder_url (trim (zipCode st)))]
      | Inr location \<Rightarrow> tr @ [Call_zipToCountyFips (trim (zipCode st)), Http_GET (geocoder_url (trim (zipCode st))),
            Call_fetchNRIData (fips location), Http_GET (nri_url (fips location))])"
proof (cases "test_five_digits (trim (zipCode st))")
  case False
  then show ?thesis by (simp add: handleSearch_invalid)
next
  case True
  let ?c = "trim (zipCode st)"
  obtain r tr1 where z: "zipToCountyFips geocoder ?c (tr @ [Call_zipToCountyFips ?c]) = (r, tr1)"
    by (cases "zipToCountyFips geocoder ?c (tr @ [Call_zipToCountyFips ?c])")
  have tr1: "tr1 = tr @ [Call_zipToCountyFips ?c, Http_GET (geocoder_url ?c)]"
    using zipToCountyFips_trace [of geocoder ?c "tr @ [Call_zipToCountyFips ?c]"] z by simp
  show ?thesis
  proof (cases r)
    case (Inl err)
    with True z tr1 show ?thesis by (simp add: handleSearch_resolver_throws)
  next
    case (Inr location)
    obtain f tr2 where n: "fetchNRIData fema (fips location) (tr1 @ [Call_fetchNRIData (fips location)]) = (f, tr2)"
      by (cases "fetchNRIData fema (fips location) (tr1 @ [Call_fetchNRIData (fips location)])")
    have "tr2 = tr1 @ [Call_fetchNRIData (fips location), Http_GET (nri_url (fips location))]"
      using fetchNRIData_trace [of fema "fips location" "tr1 @ [Call_fetchNRIData (fips location)]"] n by simp
    with True z tr1 Inr n show ?thesis
      using handleSearch_resolver_returns [of st geocoder tr location tr1 fema f tr2] by simp
  qed
qed

lemma trim_1234: "trim (ascii ''1234'') = ascii ''1234''"
  by (simp add: trim_def ascii_def is_white_space_def)

lemma not_zip_1234: "\<not> test_five_digits (ascii ''1234'')"
  by (simp add: test_five_digits_def ascii_def)

lemma zip_90210: "test_five_digits (ascii ''90210'')"
  by (simp add: test_five_digits_def ascii_def is_digit_def)

lemma resolve_90210:
  "zipToCountyFips geocoder_90210 z tr = (Inr location_06037, tr @ [Http_GET (geocoder_url z)])"
  by (simp add: zipToCountyFips_def fetch_def geocoder_90210_def ok_def los_angeles_def
      location_06037_def ascii_def)

lemma fetch_06037:
  "fetchNRIData fema_06037 f tr = (Inr record_06037, tr @ [Http_GET (nri_url f)])"
  by (simp add: fetchNRIData_def fetch_def fema_06037_def ok_def)

lemma fips_06037: "fips location_06037 = ascii ''06037''"
  by (simp add: location_06037_def)

lemma run_90210:
  assumes "test_five_digits (trim (zipCode st))"
  shows "handleSearch geocoder_90210 fema_06037 (st, tr) =
     ((reset_session st)\<lparr>locationInfo := Some location_06037, nriData := Some record_06037,
         loading := False\<rparr>,
      tr @ [Call_zipToCountyFips (trim (zipCode st)), Http_GET (geocoder_url (trim (zipCode st))),
            Call_fetchNRIData (ascii ''06037''), Http_GET (nri_url (ascii ''06037''))])"
  using handleSearch_resolver_returns [OF assms resolve_90210 fetch_06037, of tr]
  by (simp add: handleSearch_fetched_def fips_06037)
text \<open>
  The lookup of 90210 against these two services ends with the record of county 06037,
  whose earthquake score 42.3 is rated "Relatively Moderate".
\<close>

lemma lookup_90210_rating:
  "nriData (fst (handleSearch geocoder_90210 fema_06037 (typed (ascii ''90210''), []))) =
     Some record_06037
 \<and> property record_06037 (ascii ''ERQK_RISKS'') = Num 42.3
 \<and> label (getRiskRating (property record_06037 (ascii ''ERQK_RISKS''))) =
     ascii ''Relatively Moderate''"
proof -
  have "test_five_digits (trim (zipCode (typed (ascii ''90210''))))"
    by (simp add: typed_def trim_def test_five_digits_def is_digit_def is_white_space_def
        ascii_def)
  from run_90210 [OF this, of "[]"]
  have "nriData (fst (handleSearch geocoder_90210 fema_06037 (typed (ascii ''90210''), []))) =
      Some record_06037"
    by simp
  moreover have "property record_06037 (ascii ''ERQK_RISKS'') = Num 42.3"
    by (simp add: property_def record_06037_def ascii_def)
  ultimately show ?thesis
    by (simp add: RISK_RATINGS_def)
qed


subsection \<open>Validation\<close>


text \<open>
  What the input cell can hold: its only writer is \<open>onChange\<close>, which keeps digits only, and
  no other event of the page touches it. On digits \<open>trim\<close> does nothing.
\<close>

lemma digit_not_white_space: "is_digit c \<Longrightarrow> \<not> is_white_space c"
  by (simp add: is_digit_def is_white_space_def)

lemma dropWhile_white_space_digits:
  "list_all is_digit s \<Longrightarrow> dropWhile is_white_space s = s"
  by (cases s) (simp_all add: digit_not_white_space)

lemma trim_digits: "list_all is_digit s \<Longrightarrow> trim s = s"
proof -
  assume d: "list_all is_digit s"
  then have "list_all is_digit (rev s)"
    by (simp add: list_all_iff)
  with d show ?thesis
    by (simp add: trim_def dropWhile_white_space_digits)
qed

lemma onChange_digits: "list_all is_digit (zipCode (cells (onChange v p)))"
  by (auto simp add: onChange_def list_all_iff dest: in_set_takeD)










lemma handleSearch_on_typed_input:
  "handleSearch_start (cells (onChange v p)) =
     (if test_five_digits (zipCode (cells (onChange v p)))
      then (reset_session (cells (onChange v p)), Some (zipCode (cells (onChange v p))))
      else ((cells (onChange v p))\<lparr>error := Some (ascii ''Please enter a valid 5-digit US ZIP code.'')\<rparr>, None))"
  by (simp add: handleSearch_start_def trim_digits [OF onChange_digits])




text \<open>The input box cuts a sixth digit off, so what is left of 123456 is a valid ZIP code.\<close>

lemma typed_123456:
  "cells (foldl dispatch initial_page [Change (ascii ''123456'')]) = typed (ascii ''12345'')"
  by (simp add: onChange_def initial_page_def typed_def is_digit_def ascii_def)




subsection \<open>Order of the two steps and failure of the first\<close>


lemma resolve_offline:
  "zipToCountyFips geocoder_offline z tr = (Inl failed_to_fetch, tr @ [Http_GET (geocoder_url z)])"
  by (simp add: zipToCountyFips_def fetch_def geocoder_offline_def)

lemma resolve_silent:
  "zipToCountyFips geocoder_silent z tr = (Inl (JsError Error []), tr @ [Http_GET (geocoder_url z)])"
  by (simp add: zipToCountyFips_def fetch_def geocoder_silent_def)

lemma valid_typed_90210: "test_five_digits (trim (zipCode (typed (ascii ''90210''))))"
  by (simp add: typed_def trim_def test_five_digits_def is_digit_def is_white_space_def ascii_def)

lemma trim_typed_90210: "trim (zipCode (typed (ascii ''90210''))) = ascii ''90210''"
  by (simp add: typed_def trim_def is_white_space_def ascii_def)

text \<open>
  C4, as the code has it. The calls of one run are in the order resolve, then fetch, and
  \<open>fetchNRIData\<close> is called only after \<open>zipToCountyFips\<close> has returned. When
  \<open>zipToCountyFips\<close> throws, nothing follows its request, and the run ends with the
  thrown error's message as the error when that message is not empty, and with "An error
  occurred. Please try again." when it is empty; no location and no record are stored.
\<close>

theorem handleSearch_resolve_then_fetch:
  "(\<exists>new. snd (handleSearch geocoder fema (st, tr)) = tr @ new
      \<and> (new = []
         \<or> new = [Call_zipToCountyFips (trim (zipCode st)),
                   Http_GET (geocoder_url (trim (zipCode st)))]
         \<or> (\<exists>countyFips. new =
               [Call_zipToCountyFips (trim (zipCode st)),
                Http_GET (geocoder_url (trim (zipCode st))),
                Call_fetchNRIData countyFips, Http_GET (nri_url countyFips)])))
 \<and> (\<forall>err tr1.
       test_five_digits (trim (zipCode st))
       \<and> zipToCountyFips geocoder (trim (zipCode st))
            (tr @ [Call_zipToCountyFips (trim (zipCode st))]) = (Inl err, tr1)
       \<longrightarrow> snd (handleSearch geocoder fema (st, tr)) =
             tr @ [Call_zipToCountyFips (trim (zipCode st)),
                   Http_GET (geocoder_url (trim (zipCode st)))]
         \<and> error (fst (handleSearch geocoder fema (st, tr))) =
             Some (if message err = [] then ascii ''An error occurred. Please try again.''
                   else message err)
         \<and> \<not> loading (fst (handleSearch geocoder fema (st, tr)))
         \<and> nriData (fst (handleSearch geocoder fema (st, tr))) = None
         \<and> locationInfo (fst (handleSearch geocoder fema (st, tr))) = None)"
proof (intro conjI allI impI)
  show "\<exists>new. snd (handleSearch geocoder fema (st, tr)) = tr @ new
      \<and> (new = []
         \<or> new = [Call_zipToCountyFips (trim (zipCode st)),
                   Http_GET (geocoder_url (trim (zipCode st)))]
         \<or> (\<exists>countyFips. new =
               [Call_zipToCountyFips (trim (zipCode st)),
                Http_GET (geocoder_url (trim (zipCode st))),
                Call_fetchNRIData countyFips, Http_GET (nri_url countyFips)]))"
    by (simp add: handleSearch_trace split: sum.split)
next
  fix err tr1
  assume h: "test_five_digits (trim (zipCode st))
       \<and> zipToCountyFips geocoder (trim (zipCode st))
            (tr @ [Call_zipToCountyFips (trim (zipCode st))]) = (Inl err, tr1)"
  then have run: "handleSearch geocoder fema (st, tr) = (catch_finally err (reset_session st), tr1)"
    using handleSearch_resolver_throws by blast
  have tr1: "tr1 = tr @ [Call_zipToCountyFips (trim (zipCode st)),
                 Http_GET (geocoder_url (trim (zipCode st)))]"
    using zipToCountyFips_trace [of geocoder "trim (zipCode st)"
        "tr @ [Call_zipToCountyFips (trim (zipCode st))]"] h by simp
  show "snd (handleSearch geocoder fema (st, tr)) =
             tr @ [Call_zipToCountyFips (trim (zipCode st)),
                   Http_GET (geocoder_url (trim (zipCode st)))]"
    by (simp add: run tr1)
  show "error (fst (handleSearch geocoder fema (st, tr))) =
             Some (if message err = [] then ascii ''An error occurred. Please try again.''
                   else message err)"
    by (simp add: run catch_finally_def)
  show "\<not> loading (fst (handleSearch geocoder fema (st, tr)))"
    by (simp add: run catch_finally_def)
  show "nriData (fst (handleSearch geocoder fema (st, tr))) = None"
    by (simp add: run catch_finally_def reset_session_def)
  show "locationInfo (fst (handleSearch geocoder fema (st, tr))) = None"
    by (simp add: run catch_finally_def reset_session_def)
qed

theorem handleSearch_resolve_then_fetch_witness:
  "test_five_digits (trim (zipCode (typed (ascii ''90210''))))
 \<and> zipToCountyFips geocoder_offline (ascii ''90210'') [Call_zipToCountyFips (ascii ''90210'')] =
     (Inl failed_to_fetch,
      [Call_zipToCountyFips (ascii ''90210''), Http_GET (geocoder_url (ascii ''90210''))])
 \<and> snd (handleSearch geocoder_offline fema_06037 (typed (ascii ''90210''), [])) =
     [Call_zipToCountyFips (ascii ''90210''), Http_GET (geocoder_url (ascii ''90210''))]
 \<and> error (fst (handleSearch geocoder_offline fema_06037 (typed (ascii ''90210''), []))) =
     Some (ascii ''Failed to fetch'')
 \<and> nriData (fst (handleSearch geocoder_offline fema_06037 (typed (ascii ''90210''), []))) = None"
proof -
  have m: "message failed_to_fetch = ascii ''Failed to fetch''" "ascii ''Failed to fetch'' \<noteq> []"
    by (simp_all add: failed_to_fetch_def ascii_def)
  show ?thesis
    using handleSearch_resolve_then_fetch [of geocoder_offline fema_06037 "typed (ascii ''90210'')" "[]"]
    by (simp add: zip_90210 trim_typed_90210 resolve_offline m)
qed

text \<open>
  C4 as stated fails: an error thrown with an empty message is not shown verbatim, the
  fallback text replaces it.
\<close>

theorem handleSearch_empty_message_counterexample:
  "test_five_digits (trim (zipCode (typed (ascii ''90210''))))
 \<and> fst (zipToCountyFips geocoder_silent (ascii ''90210'') [Call_zipToCountyFips (ascii ''90210'')]) =
     Inl (JsError Error [])
 \<and> error (fst (handleSearch geocoder_silent fema_06037 (typed (ascii ''90210''), []))) =
     Some (ascii ''An error occurred. Please try again.'')
 \<and> Some (ascii ''An error occurred. Please try again.'') \<noteq> Some (message (JsError Error []))"
proof -
  have "handleSearch geocoder_silent fema_06037 (typed (ascii ''90210''), []) =
      (catch_finally (JsError Error []) (reset_session (typed (ascii ''90210''))),
       [Call_zipToCountyFips (ascii ''90210''), Http_GET (geocoder_url (ascii ''90210''))])"
    using handleSearch_resolver_throws [OF valid_typed_90210, of geocoder_silent "[]"]
    by (simp add: trim_typed_90210 resolve_silent)
  moreover have "ascii ''An error occurred. Please try again.'' \<noteq> []"
    by (simp add: ascii_def)
  ultimately show ?thesis
    by (simp add: zip_90210 trim_typed_90210 resolve_silent catch_finally_def)
qed


subsection \<open>Prior results\<close>


lemma handleSearch_valid_state:
  assumes "test_five_digits (trim (zipCode st))"
  shows "error (fst (handleSearch geocoder fema (st, tr))) \<noteq> None \<longrightarrow>
           nriData (fst (handleSearch geocoder fema (st, tr))) = None"
proof -
  let ?c = "trim (zipCode st)"
  obtain r tr1 where z: "zipToCountyFips geocoder ?c (tr @ [Call_zipToCountyFips ?c]) = (r, tr1)"
    by (cases "zipToCountyFips geocoder ?c (tr @ [Call_zipToCountyFips ?c])")
  show ?thesis
  proof (cases r)
    case (Inl err)
    with assms z show ?thesis
      by (simp add: handleSearch_resolver_throws catch_finally_def reset_session_def)
  next
    case (Inr location)
    obtain f tr2 where n: "fetchNRIData fema (fips location) (tr1 @ [Call_fetchNRIData (fips location)]) = (f, tr2)"
      by (cases "fetchNRIData fema (fips location) (tr1 @ [Call_fetchNRIData (fips location)])")
    from assms z Inr n have "handleSearch geocoder fema (st, tr) =
        (handleSearch_fetched f ((reset_session st)\<lparr>locationInfo := Some location\<rparr>), tr2)"
      using handleSearch_resolver_returns by blast
    then show ?thesis
      by (cases f) (simp_all add: handleSearch_fetched_def catch_finally_def reset_session_def)
  qed
qed

text \<open>
  C7, as the code has it, for one run of \<open>handleSearch\<close> from its start to its end with
  no other run in between. A submission that passes validation discards the previous
  record, location and error before anything else happens, and if the run ends with an
  error it holds no record, so the results block is not rendered. A submission that fails
  validation only sets the error: the previous record and location stay as they were.
  Nothing is said here of runs that overlap, which Enter can start while a run is in
  flight (see \<open>overlapped_result\<close>).
\<close>

theorem handleSearch_discards_prior_state_when_valid:
  "(test_five_digits (trim (zipCode st)) \<longrightarrow>
      handleSearch_start st = (reset_session st, Some (trim (zipCode st)))
    \<and> nriData (reset_session st) = None
    \<and> locationInfo (reset_session st) = None
    \<and> error (reset_session st) = None
    \<and> (error (fst (handleSearch geocoder fema (st, tr))) \<noteq> None \<longrightarrow>
          nriData (fst (handleSearch geocoder fema (st, tr))) = None
        \<and> \<not> results_shown (fst (handleSearch geocoder fema (st, tr)))))
 \<and> (\<not> test_five_digits (trim (zipCode st)) \<longrightarrow>
      fst (handleSearch geocoder fema (st, tr)) =
        st\<lparr>error := Some (ascii ''Please enter a valid 5-digit US ZIP code.'')\<rparr>
    \<and> nriData (fst (handleSearch geocoder fema (st, tr))) = nriData st
    \<and> locationInfo (fst (handleSearch geocoder fema (st, tr))) = locationInfo st)"
  using handleSearch_valid_state [of st geocoder fema tr]
  by (simp add: handleSearch_invalid handleSearch_start_def reset_session_def results_shown_def)

theorem handleSearch_discards_prior_state_when_valid_witness:
  "test_five_digits (trim (zipCode ((typed (ascii ''90210''))\<lparr>nriData := Some record_36061\<rparr>)))
 \<and> error (fst (handleSearch geocoder_offline fema_06037
      ((typed (ascii ''90210''))\<lparr>nriData := Some record_36061\<rparr>, []))) \<noteq> None
 \<and> nriData (fst (handleSearch geocoder_offline fema_06037
      ((typed (ascii ''90210''))\<lparr>nriData := Some record_36061\<rparr>, []))) = None
 \<and> \<not> test_five_digits (trim (zipCode ((typed (ascii ''1234''))\<lparr>nriData := Some record_36061\<rparr>)))
 \<and> nriData (fst (handleSearch geocoder_offline fema_06037
      ((typed (ascii ''1234''))\<lparr>nriData := Some record_36061\<rparr>, []))) = Some record_36061"
proof -
  have v: "test_five_digits (trim (zipCode ((typed (ascii ''90210''))\<lparr>nriData := Some record_36061\<rparr>)))"
    by (simp add: typed_def trim_def test_five_digits_def is_digit_def is_white_space_def ascii_def)
  have e: "error (fst (handleSearch geocoder_offline fema_06037
      ((typed (ascii ''90210''))\<lparr>nriData := Some record_36061\<rparr>, []))) \<noteq> None"
    using handleSearch_resolver_throws [OF v, of geocoder_offline "[]" failed_to_fetch _ fema_06037]
    by (simp add: resolve_offline catch_finally_def)
  have i: "\<not> test_five_digits (trim (zipCode ((typed (ascii ''1234''))\<lparr>nriData := Some record_36061\<rparr>)))"
    by (simp add: typed_def trim_1234 not_zip_1234)
  show ?thesis
    using handleSearch_discards_prior_state_when_valid
        [of "(typed (ascii ''90210''))\<lparr>nriData := Some record_36061\<rparr>" geocoder_offline fema_06037 "[]"]
      handleSearch_discards_prior_state_when_valid
        [of "(typed (ascii ''1234''))\<lparr>nriData := Some record_36061\<rparr>" geocoder_offline fema_06037 "[]"]
      v e i
    by simp
qed

text \<open>
  C7 as stated fails: after a successful lookup of 90210, submitting the invalid input
  9021 ends with the validation error while the record of 90210 is still stored and the
  results block is still rendered.
\<close>

theorem handleSearch_stale_results_counterexample:
  "nriData (fst (handleSearch geocoder_90210 fema_06037 (typed (ascii ''90210''), []))) =
     Some record_06037
 \<and> error (fst (handleSearch geocoder_offline fema_offline
      ((fst (handleSearch geocoder_90210 fema_06037 (typed (ascii ''90210''), [])))
         \<lparr>zipCode := ascii ''9021''\<rparr>, []))) =
     Some (ascii ''Please enter a valid 5-digit US ZIP code.'')
 \<and> nriData (fst (handleSearch geocoder_offline fema_offline
      ((fst (handleSearch geocoder_90210 fema_06037 (typed (ascii ''90210''), [])))
         \<lparr>zipCode := ascii ''9021''\<rparr>, []))) =
     Some record_06037
 \<and> results_shown (fst (handleSearch geocoder_offline fema_offline
      ((fst (handleSearch geocoder_90210 fema_06037 (typed (ascii ''90210''), [])))
         \<lparr>zipCode := ascii ''9021''\<rparr>, [])))
 \<and> error_shown (fst (handleSearch geocoder_offline fema_offline
      ((fst (handleSearch geocoder_90210 fema_06037 (typed (ascii ''90210''), [])))
         \<lparr>zipCode := ascii ''9021''\<rparr>, [])))"
proof -
  let ?st1 = "fst (handleSearch geocoder_90210 fema_06037 (typed (ascii ''90210''), []))"
  have st1: "?st1 = (reset_session (typed (ascii ''90210'')))\<lparr>locationInfo := Some location_06037,
      nriData := Some record_06037, loading := False\<rparr>"
    using run_90210 [OF valid_typed_90210, of "[]"] by simp
  have inv: "\<not> test_five_digits (trim (zipCode (?st1\<lparr>zipCode := ascii ''9021''\<rparr>)))"
    by (simp add: trim_def test_five_digits_def is_white_space_def ascii_def)
  have msg: "ascii ''Please enter a valid 5-digit US ZIP code.'' \<noteq> []"
    by (simp add: ascii_def)
  show ?thesis
    unfolding handleSearch_invalid [OF inv]
    by (simp add: st1 results_shown_def error_shown_def reset_session_def msg)
qed


section \<open>Submissions while a run is in flight\<close>


lemma onClick_refused_while_loading:
  "loading (cells p) \<Longrightarrow> dispatch p Click_submit = p"
  by (simp add: onClick_def)

lemma filter_90210: "take 5 (filter is_digit (ascii ''90210'')) = ascii ''90210''"
  by (simp add: is_digit_def ascii_def)
lemma filter_10001: "take 5 (filter is_digit (ascii ''10001'')) = ascii ''10001''"
  by (simp add: is_digit_def ascii_def)
lemma trim_90210: "trim (ascii ''90210'') = ascii ''90210''"
  by (simp add: trim_def is_white_space_def ascii_def)
lemma trim_10001: "trim (ascii ''10001'') = ascii ''10001''"
  by (simp add: trim_def is_white_space_def ascii_def)
lemma zip_10001: "test_five_digits (ascii ''10001'')"
  by (simp add: test_five_digits_def ascii_def is_digit_def)

lemma start_run_valid:
  "test_five_digits (trim (zipCode (cells p))) \<Longrightarrow>
     start_run p = p\<lparr>cells := reset_session (cells p),
                     runs := runs p @ [Resolving (trim (zipCode (cells p)))]\<rparr>"
  by (simp add: start_run_def handleSearch_start_def Let_def)

lemma busy_page_eq:
  "busy_page = \<lparr>cells = reset_session (typed (ascii ''90210'')), runs = [Resolving (ascii ''90210'')]\<rparr>"
  by (simp add: busy_page_def page0_def onChange_def onClick_def start_run_valid
      initial_state_def typed_def filter_90210 trim_90210 zip_90210)

text \<open>
  One run of the page alone, from a submission to its last settlement, leaves the cells
  as \<open>handleSearch\<close> computes them.
\<close>

lemma page_run_agrees_when_resolver_throws:
  assumes "runs p = []" and "test_five_digits (trim (zipCode (cells p)))"
    and "zipToCountyFips geocoder (trim (zipCode (cells p)))
           (tr @ [Call_zipToCountyFips (trim (zipCode (cells p)))]) = (Inl err, tr1)"
  shows "cells (foldl dispatch p [KeyDown (ascii ''Enter''), Resolved 0 (Inl err)]) =
           fst (handleSearch geocoder fema (cells p, tr))"
  using assms
  by (simp add: handleSearch_resolver_throws handleKeyDown_def start_run_valid settle_resolve_def
      handleSearch_resolved_def)

lemma page_run_agrees_when_resolver_returns:
  assumes "runs p = []" and "test_five_digits (trim (zipCode (cells p)))"
    and "zipToCountyFips geocoder (trim (zipCode (cells p)))
           (tr @ [Call_zipToCountyFips (trim (zipCode (cells p)))]) = (Inr location, tr1)"
    and "fetchNRIData fema (fips location) (tr1 @ [Call_fetchNRIData (fips location)]) = (fetched, tr2)"
  shows "cells (foldl dispatch p
           [KeyDown (ascii ''Enter''), Resolved 0 (Inr location), Fetched 0 fetched]) =
           fst (handleSearch geocoder fema (cells p, tr))"
  using assms
  by (simp add: handleSearch_resolver_returns [OF assms(2) assms(3) assms(4)] handleKeyDown_def start_run_valid settle_resolve_def
      settle_fetch_def handleSearch_resolved_def)

text \<open>
  C9 at the failing input. While the first run is waiting (\<open>loading\<close> is set) the
  disabled button refuses a click, but Enter in the input starts a second run: two runs
  are in flight.
\<close>

theorem enter_while_loading_starts_second_run:
  "loading (cells busy_page)
 \<and> in_flight busy_page = 1
 \<and> dispatch busy_page Click_submit = busy_page
 \<and> runs (dispatch busy_page (KeyDown (ascii ''Enter''))) =
     [Resolving (ascii ''90210''), Resolving (ascii ''90210'')]
 \<and> in_flight (dispatch busy_page (KeyDown (ascii ''Enter''))) = 2"
  by (simp add: busy_page_eq onClick_def handleKeyDown_def start_run_valid
      reset_session_def typed_def trim_90210 zip_90210 in_flight_def)

text \<open>
  The two runs then write the same cells: with the second run settled and the first run's
  location arriving afterwards, the results block shows the record of New York County
  under the location of Los Angeles County.
\<close>

lemma interleaved_result:
  "results_shown (cells interleaved)
 \<and> nriData (cells interleaved) = Some record_36061
 \<and> locationInfo (cells interleaved) = Some location_06037
 \<and> in_flight interleaved = 1"
  by (simp add: interleaved_def busy_page_eq onChange_def handleKeyDown_def start_run_valid
      reset_session_def typed_def filter_10001 trim_10001 zip_10001 in_flight_def settle_resolve_def settle_fetch_def
      handleSearch_resolved_def handleSearch_fetched_def results_shown_def)

text \<open>
  With the first run succeeding and the second run failing afterwards, the error of the
  second run is shown beside the record that the first run stored after the second run's
  reset.
\<close>

lemma overlapped_result:
  "error (cells overlapped) = Some (ascii ''Failed to fetch'')
 \<and> error_shown (cells overlapped)
 \<and> nriData (cells overlapped) = Some record_06037
 \<and> results_shown (cells overlapped)"
proof -
  have m: "message failed_to_fetch = ascii ''Failed to fetch''"
    "ascii ''Failed to fetch'' \<noteq> []"
    by (simp_all add: failed_to_fetch_def ascii_def)
  show ?thesis
    by (simp add: overlapped_def busy_page_eq onChange_def handleKeyDown_def start_run_valid
        reset_session_def typed_def filter_10001 trim_10001 zip_10001 settle_resolve_def
        settle_fetch_def handleSearch_resolved_def handleSearch_fetched_def catch_finally_def
        results_shown_def error_shown_def m)
qed

end
